theory Spec2Isabelle
  imports Main "HOL-Library.Sublist" "HOL-Library.AList" "HOL-Library.Monad_Syntax"
begin

section \<open>Data model of the converter package\<close>

text \<open>
  The four structs of the package. Go strings are byte strings, modelled as \<open>string\<close>;
  the zero value of a string field is the empty string. A pointer to a leg that may be
  nil is an \<open>option\<close>. The \<open>trades\<close> map of the converter is an association list with
  one entry per key: lookup is \<open>map_of\<close>, assignment is \<open>AList.update\<close>, \<open>delete\<close> is
  \<open>AList.delete\<close>. The list form is needed because \<open>Process\<close> ranges over the map.
  Each \<open>TradePair\<close> is reachable only through its map entry, so a write through the
  pointer \<open>trade\<close> is a write to the entry.
\<close>

record K33Record =
  TypeStatus :: string
  TradeID :: string
  Side :: string
  Amount :: string
  TradeStatus :: string
  Asset :: string
  Timestamp :: string
  DepositTxhash :: string
  WithdrawalTxhash :: string

record TradePair =
  TradeID :: string
  Timestamp :: string
  BuyLeg :: "K33Record option"
  SellLeg :: "K33Record option"

record KoinlyRecord =
  Date :: string
  SentAmount :: string
  SentCurrency :: string
  ReceivedAmount :: string
  ReceivedCurrency :: string
  FeeAmount :: string
  FeeCurrency :: string
  NetWorthAmount :: string
  NetWorthCurrency :: string
  Label :: string
  Description :: string
  TxHash :: string

record Converter =
  trades :: "(string \<times> TradePair) list"

definition New :: Converter where
  "New = \<lparr>trades = []\<rparr>"

text \<open>The zero values \<open>K33Record{}\<close> and \<open>KoinlyRecord{}\<close>.\<close>

definition K33Record_zero :: K33Record where
  "K33Record_zero = \<lparr>TypeStatus = [], K33Record.TradeID = [], Side = [], Amount = [],
     TradeStatus = [], Asset = [], K33Record.Timestamp = [], DepositTxhash = [],
     WithdrawalTxhash = []\<rparr>"

definition KoinlyRecord_zero :: KoinlyRecord where
  "KoinlyRecord_zero = \<lparr>Date = [], SentAmount = [], SentCurrency = [], ReceivedAmount = [],
     ReceivedCurrency = [], FeeAmount = [], FeeCurrency = [], NetWorthAmount = [],
     NetWorthCurrency = [], Label = [], Description = [], TxHash = []\<rparr>"

section \<open>The string functions of package strings that the converter calls\<close>

definition HasPrefix :: "string \<Rightarrow> string \<Rightarrow> bool" where
  "HasPrefix s pre = prefix pre s"

definition TrimPrefix :: "string \<Rightarrow> string \<Rightarrow> string" where
  "TrimPrefix s pre = (if HasPrefix s pre then drop (length pre) s else s)"

fun Contains :: "string \<Rightarrow> string \<Rightarrow> bool" where
  "Contains [] substr = (substr = [])"
| "Contains (c # s) substr = (prefix substr (c # s) \<or> Contains s substr)"

section \<open>convertTimestamp\<close>

text \<open>
  \<open>convertTimestamp\<close> calls \<open>time.Parse\<close> and \<open>Time.Format\<close> of the Go standard library
  with two constant layouts. The model below is the library's \<open>parse\<close> loop unrolled
  over the layout \<open>2006/01/02 15:04:05\<close>, whose chunks are: \<open>stdLongYear\<close>, \<open>/\<close>,
  \<open>stdZeroMonth\<close>, \<open>/\<close>, \<open>stdZeroDay\<close>, a space, \<open>stdHour\<close>, \<open>:\<close>, \<open>stdZeroMinute\<close>,
  \<open>:\<close>, \<open>stdZeroSecond\<close>. The helpers keep the library's names.
\<close>

definition isDigit :: "char \<Rightarrow> bool" where
  "isDigit c = (48 \<le> (of_char c :: nat) \<and> (of_char c :: nat) \<le> 57)"

definition digitVal :: "char \<Rightarrow> nat" where
  "digitVal c = of_char c - 48"

definition digitChar :: "nat \<Rightarrow> char" where
  "digitChar n = ''0123456789'' ! (n mod 10)"

text \<open>
  \<open>getnum(s, fixed)\<close>: one or two leading digits; with \<open>fixed\<close>, exactly two.
\<close>

fun getnum :: "string \<Rightarrow> bool \<Rightarrow> (nat \<times> string) option" where
  "getnum [] fixed = None"
| "getnum [a] fixed =
     (if \<not> isDigit a then None
      else if fixed then None
      else Some (digitVal a, []))"
| "getnum (a # b # s) fixed =
     (if \<not> isDigit a then None
      else if \<not> isDigit b then (if fixed then None else Some (digitVal a, b # s))
      else Some (digitVal a * 10 + digitVal b, s))"

definition cutspace :: "string \<Rightarrow> string" where
  "cutspace s = dropWhile (\<lambda>c. c = CHR '' '') s"

text \<open>
  \<open>skip(value, prefix)\<close>: the literal text of the layout must be present in the value;
  a space of the layout stands for any run of spaces in the value that starts where the
  value is not yet exhausted.
\<close>

function skip :: "string \<Rightarrow> string \<Rightarrow> string option" where
  "skip v [] = Some v"
| "skip v (p # ps) =
     (if p = CHR '' '' then
        (if v \<noteq> [] \<and> hd v \<noteq> CHR '' '' then None
         else skip (cutspace v) (cutspace (p # ps)))
      else if v = [] \<or> hd v \<noteq> p then None
      else skip (tl v) ps)"
  by pat_completeness auto
termination
proof (relation "measure (\<lambda>(v, p). length p)")
  show "wf (measure (\<lambda>(v, p). length p))" by simp
next
  fix v :: string and p :: char and ps :: string
  assume "p = CHR '' ''"
  then have "length (cutspace (p # ps)) \<le> length ps"
    by (simp add: cutspace_def length_dropWhile_le)
  then show "((cutspace v, cutspace (p # ps)), (v, p # ps)) \<in> measure (\<lambda>(v, p). length p)"
    by simp
next
  fix v :: string and p :: char and ps :: string
  show "((tl v, ps), (v, p # ps)) \<in> measure (\<lambda>(v, p). length p)"
    by simp
qed

text \<open>
  \<open>atoi\<close> on a string whose first byte is known to be a digit (both call sites): the
  sign branch is dead, and with at most nine bytes \<open>leadingInt\<close> cannot overflow. The
  result is the decimal value if every byte is a digit, an error otherwise.
\<close>

definition atoi :: "string \<Rightarrow> nat option" where
  "atoi s = (if list_all isDigit s then Some (foldl (\<lambda>x c. x * 10 + digitVal c) 0 s) else None)"

definition isLeap :: "nat \<Rightarrow> bool" where
  "isLeap y = (y mod 4 = 0 \<and> (y mod 100 \<noteq> 0 \<or> y mod 400 = 0))"

definition daysIn :: "nat \<Rightarrow> nat \<Rightarrow> nat" where
  "daysIn m y =
     (if m = 2 then (if isLeap y then 29 else 28)
      else if m = 4 \<or> m = 6 \<or> m = 9 \<or> m = 11 then 30
      else 31)"

definition commaOrPeriod :: "char \<Rightarrow> bool" where
  "commaOrPeriod c = (c = CHR ''.'' \<or> c = CHR '','')"

definition parseNanoseconds :: "string \<Rightarrow> nat \<Rightarrow> nat option" where
  "parseNanoseconds v nbytes =
     (if v = [] \<or> \<not> commaOrPeriod (hd v) then None
      else let n = (if nbytes > 10 then 10 else nbytes) in
        case atoi (take (n - 1) (drop 1 v)) of
          None \<Rightarrow> None
        | Some ns \<Rightarrow> Some (ns * 10 ^ (10 - n)))"

record Time =
  year :: nat
  month :: nat
  day :: nat
  hour :: nat
  minute :: nat
  second :: nat
  nsec :: nat

text \<open>
  The \<open>stdLongYear\<close> chunk: at least four bytes, the first a digit, the first four read
  by \<open>atoi\<close>.
\<close>

definition getLongYear :: "string \<Rightarrow> (nat \<times> string) option" where
  "getLongYear v =
     (if length v < 4 \<or> \<not> isDigit (hd v) then None
      else case atoi (take 4 v) of None \<Rightarrow> None | Some y \<Rightarrow> Some (y, drop 4 v))"

text \<open>
  After \<open>stdZeroSecond\<close>: a fractional second in the value that the layout does not
  have is read and kept as nanoseconds.
\<close>

definition getFraction :: "string \<Rightarrow> (nat \<times> string) option" where
  "getFraction v =
     (if length v \<ge> 2 \<and> commaOrPeriod (v ! 0) \<and> isDigit (v ! 1) then
        (let n = 2 + length (takeWhile isDigit (drop 2 v)) in
         case parseNanoseconds v n of
           None \<Rightarrow> None
         | Some ns \<Rightarrow> Some (ns, drop n v))
      else Some (0, v))"

text \<open>
  \<open>time.Parse("2006/01/02 15:04:05", value)\<close>; \<open>None\<close> is a returned error. A range
  error of a field is reported when its chunk is done; the day is checked against the
  month and year after the last chunk.
\<close>

definition Parse :: "string \<Rightarrow> Time option" where
  "Parse v0 = do {
     (y, v1) \<leftarrow> getLongYear v0;
     v2 \<leftarrow> skip v1 ''/'';
     (mo, v3) \<leftarrow> getnum v2 True;
     _ \<leftarrow> (if mo \<le> 0 \<or> 12 < mo then None else Some ());
     v4 \<leftarrow> skip v3 ''/'';
     (d, v5) \<leftarrow> getnum v4 True;
     v6 \<leftarrow> skip v5 '' '';
     (h, v7) \<leftarrow> getnum v6 False;
     _ \<leftarrow> (if 24 \<le> h then None else Some ());
     v8 \<leftarrow> skip v7 '':'';
     (mi, v9) \<leftarrow> getnum v8 True;
     _ \<leftarrow> (if 60 \<le> mi then None else Some ());
     v10 \<leftarrow> skip v9 '':'';
     (s, v11) \<leftarrow> getnum v10 True;
     _ \<leftarrow> (if 60 \<le> s then None else Some ());
     (ns, v12) \<leftarrow> getFraction v11;
     _ \<leftarrow> (if v12 \<noteq> [] then None else Some ());
     _ \<leftarrow> (if d < 1 \<or> d > daysIn mo y then None else Some ());
     Some \<lparr>year = y, month = mo, day = d, hour = h, minute = mi, second = s, nsec = ns\<rparr>
   }"

text \<open>\<open>appendInt(b, x, width)\<close> for \<open>x \<ge> 0\<close>: the decimal digits, zero-padded on the left.\<close>

fun utoa :: "nat \<Rightarrow> string" where
  "utoa n = (if n < 10 then [digitChar n] else utoa (n div 10) @ [digitChar (n mod 10)])"

definition appendInt :: "nat \<Rightarrow> nat \<Rightarrow> string" where
  "appendInt x width = replicate (width - length (utoa x)) (CHR ''0'') @ utoa x"

text \<open>\<open>t.Format("2006-01-02 15:04:05")\<close>.\<close>

definition Format :: "Time \<Rightarrow> string" where
  "Format t =
     appendInt (year t) 4 @ ''-'' @ appendInt (month t) 2 @ ''-'' @ appendInt (day t) 2 @ '' '' @
     appendInt (hour t) 2 @ '':'' @ appendInt (minute t) 2 @ '':'' @ appendInt (second t) 2"

text \<open>
  The log of the package: what \<open>log.Printf\<close> was called for, with the argument that
  identifies the entry.
\<close>

datatype log_entry = TimestampWarning string | UnpairedWarning string

definition convertTimestamp :: "string \<Rightarrow> string" where
  "convertTimestamp timestamp =
     (case Parse timestamp of None \<Rightarrow> timestamp | Some t \<Rightarrow> Format t)"

definition convertTimestamp_log :: "string \<Rightarrow> log_entry list" where
  "convertTimestamp_log timestamp =
     (case Parse timestamp of None \<Rightarrow> [TimestampWarning timestamp] | Some t \<Rightarrow> [])"

section \<open>The classifier and the trade pairing store\<close>

definition createDepositRecord :: "K33Record \<Rightarrow> string \<Rightarrow> KoinlyRecord" where
  "createDepositRecord k33 timestamp =
     (let amount = TrimPrefix (Amount k33) ''-'' in
      KoinlyRecord_zero\<lparr>Date := timestamp, ReceivedAmount := amount,
        ReceivedCurrency := Asset k33, Description := ''Deposit (K33)'',
        TxHash := DepositTxhash k33\<rparr>)"

definition createWithdrawalRecord :: "K33Record \<Rightarrow> string \<Rightarrow> KoinlyRecord" where
  "createWithdrawalRecord k33 timestamp =
     (let amount = TrimPrefix (Amount k33) ''-'' in
      KoinlyRecord_zero\<lparr>Date := timestamp, SentAmount := amount,
        SentCurrency := Asset k33, Description := ''Withdrawal (K33)'',
        TxHash := WithdrawalTxhash k33\<rparr>)"

text \<open>
  \<open>createTradeRecord\<close> reads through both leg pointers; \<open>None\<close> is the nil-pointer
  panic.
\<close>

definition createTradeRecord :: "TradePair \<Rightarrow> KoinlyRecord option" where
  "createTradeRecord trade =
     (case BuyLeg trade of
        None \<Rightarrow> None
      | Some buy \<Rightarrow>
         (case SellLeg trade of
            None \<Rightarrow> None
          | Some sell \<Rightarrow>
             (let buyAmount = TrimPrefix (Amount buy) ''-'';
                  sellAmount = TrimPrefix (Amount sell) ''-''
              in Some (KoinlyRecord_zero\<lparr>Date := TradePair.Timestamp trade,
                   SentAmount := sellAmount, SentCurrency := Asset sell,
                   ReceivedAmount := buyAmount, ReceivedCurrency := Asset buy,
                   Description := ''Trade (K33) - '' @ TradePair.TradeID trade\<rparr>))))"

text \<open>
  \<open>processTrade\<close> returns the records and the converter after the call. The panic of
  \<open>createTradeRecord\<close> cannot happen under the test that guards the call
  (\<open>createTradeRecord_defined\<close> below); that branch returns nothing.
\<close>

definition processTrade :: "Converter \<Rightarrow> K33Record \<Rightarrow> string \<Rightarrow> KoinlyRecord list \<times> Converter" where
  "processTrade c k33 timestamp =
     (if K33Record.TradeID k33 = [] then ([], c)
      else
        let tid = K33Record.TradeID k33;
            (trade0, c1) =
              (case map_of (trades c) tid of
                 Some t \<Rightarrow> (t, c)
               | None \<Rightarrow>
                  (let t = \<lparr>TradePair.TradeID = tid, TradePair.Timestamp = timestamp,
                             BuyLeg = None, SellLeg = None\<rparr>
                   in (t, c\<lparr>trades := AList.update tid t (trades c)\<rparr>)));
            trade =
              (if Side k33 = ''Buy'' then trade0\<lparr>BuyLeg := Some k33\<rparr>
               else if Side k33 = ''Sell'' then trade0\<lparr>SellLeg := Some k33\<rparr>
               else trade0);
            c2 = c1\<lparr>trades := AList.update tid trade (trades c1)\<rparr>
        in
          if BuyLeg trade \<noteq> None \<and> SellLeg trade \<noteq> None then
            (case createTradeRecord trade of
               Some record \<Rightarrow> ([record], c2\<lparr>trades := AList.delete tid (trades c2)\<rparr>)
             | None \<Rightarrow> ([], c2))
          else ([], c2))"

definition processK33Record :: "Converter \<Rightarrow> K33Record \<Rightarrow> KoinlyRecord list \<times> Converter" where
  "processK33Record c k33 =
     (if TypeStatus k33 = [] \<or> K33Record.Timestamp k33 = [] then ([], c)
      else
        let timestamp = convertTimestamp (K33Record.Timestamp k33) in
          if Contains (TypeStatus k33) ''Deposit'' then
            ([createDepositRecord k33 timestamp], c)
          else if Contains (TypeStatus k33) ''Withdrawal'' then
            ([createWithdrawalRecord k33 timestamp], c)
          else if TypeStatus k33 = ''Trade'' then processTrade c k33 timestamp
          else ([], c))"

text \<open>What one call of \<open>processK33Record\<close> logs: the warning of \<open>convertTimestamp\<close>.\<close>

definition processK33Record_log :: "K33Record \<Rightarrow> log_entry list" where
  "processK33Record_log k33 =
     (if TypeStatus k33 = [] \<or> K33Record.Timestamp k33 = [] then []
      else convertTimestamp_log (K33Record.Timestamp k33))"

section \<open>The records of the package's tests\<close>

definition deposit :: K33Record where
  "deposit = K33Record_zero\<lparr>TypeStatus := ''Deposit Complete'', Amount := ''1000'',
     Asset := ''USD'', K33Record.Timestamp := ''2023/01/15 10:30:45'',
     DepositTxhash := ''0xabc123''\<rparr>"

definition withdrawal :: K33Record where
  "withdrawal = K33Record_zero\<lparr>TypeStatus := ''Withdrawal Complete'', Amount := ''-500'',
     Asset := ''USD'', K33Record.Timestamp := ''2023/01/16 14:20:30'',
     WithdrawalTxhash := ''0xdef456''\<rparr>"

definition buyLeg :: K33Record where
  "buyLeg = K33Record_zero\<lparr>TypeStatus := ''Trade'', K33Record.TradeID := ''1000000012345'',
     Side := ''Buy'', Amount := ''1000'', Asset := ''USD'', TradeStatus := ''Filled'',
     K33Record.Timestamp := ''2023/01/15 10:30:45''\<rparr>"


section \<open>Basic facts\<close>

lemma Contains_iff_sublist: "Contains s substr = sublist substr s"
  by (induction s) (auto simp: sublist_Cons_right)

lemma createTradeRecord_defined:
  "BuyLeg trade \<noteq> None \<Longrightarrow> SellLeg trade \<noteq> None \<Longrightarrow> createTradeRecord trade \<noteq> None"
  by (auto simp: createTradeRecord_def Let_def)






lemma TrimPrefix_minus [simp]:
  "TrimPrefix (CHR ''-'' # s) ''-'' = s"
  by (simp add: TrimPrefix_def HasPrefix_def)

lemma convertTimestamp_example: "convertTimestamp ''2023/01/15 10:30:45'' = ''2023-01-15 10:30:45''"
  by code_simp

lemma convertTimestamp_example2: "convertTimestamp ''2023/01/16 14:20:30'' = ''2023-01-16 14:20:30''"
  by code_simp

section \<open>Claims\<close>

text \<open>
  C8. A record whose type/status label is exactly \<open>Trade\<close> and whose trade ID is empty
  produces no output record and leaves the converter, and so the whole pairing store,
  exactly as it was, both in \<open>processTrade\<close> and through \<open>processK33Record\<close>.
\<close>

theorem C8_empty_trade_id_dropped:
  assumes "TypeStatus k33 = ''Trade''" and "K33Record.TradeID k33 = []"
  shows "processK33Record c k33 = ([], c) \<and> processTrade c k33 timestamp = ([], c)"
  using assms by (simp add: processK33Record_def processTrade_def)

theorem C8_empty_trade_id_dropped_witness:
  "TypeStatus (buyLeg\<lparr>K33Record.TradeID := []\<rparr>) = ''Trade''
   \<and> K33Record.TradeID (buyLeg\<lparr>K33Record.TradeID := []\<rparr>) = []
   \<and> processK33Record New (buyLeg\<lparr>K33Record.TradeID := []\<rparr>) = ([], New)
   \<and> processTrade New (buyLeg\<lparr>K33Record.TradeID := []\<rparr>) ''2023-01-15 10:30:45'' = ([], New)"
  using C8_empty_trade_id_dropped [of "buyLeg\<lparr>K33Record.TradeID := []\<rparr>" New
      "''2023-01-15 10:30:45''"]
  by (simp add: buyLeg_def K33Record_zero_def)



text \<open>
  C2. The classifier decides in a fixed order, the first match winning: an empty label
  or an empty timestamp gives no output; otherwise a label containing \<open>Deposit\<close> gives
  one record with the received side set from the amount (leading \<open>-\<close> removed) and the
  asset, description \<open>Deposit (K33)\<close> and the deposit hash; otherwise a label
  containing \<open>Withdrawal\<close> gives one record with the sent side set, description
  \<open>Withdrawal (K33)\<close> and the withdrawal hash; otherwise the label \<open>Trade\<close> hands the
  record to \<open>processTrade\<close>; any other label gives no output. Only the trade case can
  change the converter.
\<close>

theorem C2_classification_order:
  "(TypeStatus k33 = [] \<or> K33Record.Timestamp k33 = [] \<longrightarrow> processK33Record c k33 = ([], c))
   \<and> (TypeStatus k33 \<noteq> [] \<and> K33Record.Timestamp k33 \<noteq> [] \<longrightarrow>
       (sublist ''Deposit'' (TypeStatus k33) \<longrightarrow>
          processK33Record c k33 =
            ([\<lparr>Date = convertTimestamp (K33Record.Timestamp k33),
               SentAmount = [], SentCurrency = [],
               ReceivedAmount = TrimPrefix (Amount k33) ''-'', ReceivedCurrency = Asset k33,
               FeeAmount = [], FeeCurrency = [], NetWorthAmount = [], NetWorthCurrency = [],
               Label = [], Description = ''Deposit (K33)'', TxHash = DepositTxhash k33\<rparr>], c))
     \<and> (\<not> sublist ''Deposit'' (TypeStatus k33) \<and> sublist ''Withdrawal'' (TypeStatus k33) \<longrightarrow>
          processK33Record c k33 =
            ([\<lparr>Date = convertTimestamp (K33Record.Timestamp k33),
               SentAmount = TrimPrefix (Amount k33) ''-'', SentCurrency = Asset k33,
               ReceivedAmount = [], ReceivedCurrency = [],
               FeeAmount = [], FeeCurrency = [], NetWorthAmount = [], NetWorthCurrency = [],
               Label = [], Description = ''Withdrawal (K33)'', TxHash = WithdrawalTxhash k33\<rparr>], c))
     \<and> (\<not> sublist ''Deposit'' (TypeStatus k33) \<and> \<not> sublist ''Withdrawal'' (TypeStatus k33)
          \<and> TypeStatus k33 = ''Trade'' \<longrightarrow>
          processK33Record c k33 = processTrade c k33 (convertTimestamp (K33Record.Timestamp k33)))
     \<and> (\<not> sublist ''Deposit'' (TypeStatus k33) \<and> \<not> sublist ''Withdrawal'' (TypeStatus k33)
          \<and> TypeStatus k33 \<noteq> ''Trade'' \<longrightarrow>
          processK33Record c k33 = ([], c)))"
  by (auto simp add: processK33Record_def Contains_iff_sublist [symmetric] createDepositRecord_def
      createWithdrawalRecord_def KoinlyRecord_zero_def Let_def)

theorem C2_classification_order_witness:
  "processK33Record New (deposit\<lparr>K33Record.Timestamp := []\<rparr>) = ([], New)
   \<and> sublist ''Deposit'' (TypeStatus deposit)
   \<and> processK33Record New deposit =
       ([\<lparr>Date = ''2023-01-15 10:30:45'', SentAmount = [], SentCurrency = [],
          ReceivedAmount = ''1000'', ReceivedCurrency = ''USD'',
          FeeAmount = [], FeeCurrency = [], NetWorthAmount = [], NetWorthCurrency = [],
          Label = [], Description = ''Deposit (K33)'', TxHash = ''0xabc123''\<rparr>], New)
   \<and> \<not> sublist ''Deposit'' (TypeStatus withdrawal) \<and> sublist ''Withdrawal'' (TypeStatus withdrawal)
   \<and> processK33Record New withdrawal =
       ([\<lparr>Date = ''2023-01-16 14:20:30'', SentAmount = ''500'', SentCurrency = ''USD'',
          ReceivedAmount = [], ReceivedCurrency = [],
          FeeAmount = [], FeeCurrency = [], NetWorthAmount = [], NetWorthCurrency = [],
          Label = [], Description = ''Withdrawal (K33)'', TxHash = ''0xdef456''\<rparr>], New)
   \<and> \<not> sublist ''Deposit'' (TypeStatus buyLeg) \<and> \<not> sublist ''Withdrawal'' (TypeStatus buyLeg)
   \<and> processK33Record New buyLeg = processTrade New buyLeg ''2023-01-15 10:30:45''
   \<and> \<not> sublist ''Deposit'' ''Transfer'' \<and> \<not> sublist ''Withdrawal'' ''Transfer''
   \<and> processK33Record New (deposit\<lparr>TypeStatus := ''Transfer''\<rparr>) = ([], New)"
  using C2_classification_order [of "deposit\<lparr>K33Record.Timestamp := []\<rparr>" New]
    C2_classification_order [of deposit New]
    C2_classification_order [of withdrawal New]
    C2_classification_order [of buyLeg New]
    C2_classification_order [of "deposit\<lparr>TypeStatus := ''Transfer''\<rparr>" New]
  by (simp add: deposit_def withdrawal_def buyLeg_def K33Record_zero_def
      convertTimestamp_example convertTimestamp_example2 TrimPrefix_def HasPrefix_def
      Contains_iff_sublist [symmetric])

end
